theory Spec2Isabelle
  imports Main "HOL-Library.Word" "HOL-Library.Monad_Syntax" "HOL-Library.AList"
    "HOL-Library.Char_ord" "HOL-Library.List_Lexorder" "HOL-Library.Sublist"
begin

section \<open>Project records as JSON values\<close>

text \<open>
  The project records are what \<open>json.load\<close> returns: nested dictionaries, lists, strings
  and numbers, read defensively with \<open>.get(key, default)\<close> at every level. A dictionary
  is an association list (Python dictionaries keep insertion order, and
  \<open>json.dumps(..., sort_keys=True)\<close> is what removes it again). Strings are lists of
  8-bit characters, read as the code points 0..255. Floating-point numbers are not modelled.

  Every operation that Python can refuse (\<open>.get\<close> on something that is not a dictionary,
  \<open>.lower()\<close> on something that is not a string, \<open>len\<close> of a number, ...) returns
  \<open>None\<close> in the option monad: \<open>None\<close> is "the call raises", and it also covers the few
  inputs outside the modelled domain that are named where they occur.
\<close>

datatype json =
    JNull
  | JBool bool
  | JInt int
  | JStr string
  | JList "json list"
  | JObj "(string \<times> json) list"

text \<open>\<open>d.get(k, default)\<close>: only a dictionary has \<open>.get\<close>.\<close>

fun dict_get :: "json \<Rightarrow> string \<Rightarrow> json \<Rightarrow> json option" where
  "dict_get (JObj kvs) k dflt = Some (case map_of kvs k of Some v \<Rightarrow> v | None \<Rightarrow> dflt)"
| "dict_get _ k dflt = None"

text \<open>\<open>s in t\<close> for two strings: \<open>s\<close> occurs in \<open>t\<close> as a contiguous run.\<close>

fun contains :: "string \<Rightarrow> string \<Rightarrow> bool" where
  "contains s [] = (s = [])"
| "contains s (c # t) = (prefix s (c # t) \<or> contains s t)"

text \<open>\<open>k in d\<close> for a string \<open>k\<close>: a key of a dictionary, an element of a list, a
  substring of a string; anything else is not iterable.\<close>

fun has_key :: "json \<Rightarrow> string \<Rightarrow> bool option" where
  "has_key (JObj kvs) k = Some (k \<in> fst ` set kvs)"
| "has_key (JList xs) k = Some (JStr k \<in> set xs)"
| "has_key (JStr s) k = Some (contains k s)"
| "has_key _ k = None"

text \<open>\<open>d[k]\<close> for a string \<open>k\<close>: defined on dictionaries that have the key.\<close>

fun subscript :: "json \<Rightarrow> string \<Rightarrow> json option" where
  "subscript (JObj kvs) k = map_of kvs k"
| "subscript _ k = None"

text \<open>Truth value of \<open>not x\<close> / \<open>if x\<close>.\<close>

fun truthy :: "json \<Rightarrow> bool" where
  "truthy JNull = False"
| "truthy (JBool b) = b"
| "truthy (JInt i) = (i \<noteq> 0)"
| "truthy (JStr s) = (s \<noteq> [])"
| "truthy (JList xs) = (xs \<noteq> [])"
| "truthy (JObj kvs) = (kvs \<noteq> [])"

fun py_len :: "json \<Rightarrow> nat option" where
  "py_len (JStr s) = Some (length s)"
| "py_len (JList xs) = Some (length xs)"
| "py_len (JObj kvs) = Some (length kvs)"
| "py_len _ = None"

text \<open>Iteration (\<open>for x in v\<close>): the elements of a list, the keys of a dictionary, the
  characters of a string.\<close>

fun py_iter :: "json \<Rightarrow> json list option" where
  "py_iter (JList xs) = Some xs"
| "py_iter (JObj kvs) = Some (map (\<lambda>kv. JStr (fst kv)) kvs)"
| "py_iter (JStr s) = Some (map (\<lambda>c. JStr [c]) s)"
| "py_iter _ = None"

fun as_str :: "json \<Rightarrow> string option" where
  "as_str (JStr s) = Some s"
| "as_str _ = None"

text \<open>Sequencing a list of fallible computations, left to right.\<close>

fun mapM :: "('a \<Rightarrow> 'b option) \<Rightarrow> 'a list \<Rightarrow> 'b list option" where
  "mapM f [] = Some []"
| "mapM f (x # xs) = do { y \<leftarrow> f x; ys \<leftarrow> mapM f xs; Some (y # ys) }"

section \<open>\<open>json.dumps(value, sort_keys=True)\<close>\<close>

definition digit_char :: "nat \<Rightarrow> char" where
  "digit_char n = ''0123456789abcdef'' ! n"

function show_nat :: "nat \<Rightarrow> string" where
  "show_nat n = (if n < 10 then [digit_char n] else show_nat (n div 10) @ [digit_char (n mod 10)])"
  by pat_completeness auto
termination
  by (relation "measure id") auto

declare show_nat.simps [simp del]

definition show_int :: "int \<Rightarrow> string" where
  "show_int i = (if i < 0 then CHR ''-'' # show_nat (nat (- i)) else show_nat (nat i))"

text \<open>The escapes of \<open>json.dumps\<close> with \<open>ensure_ascii=True\<close> (the default): the two-character
  escapes, and \<open>\u00XX\<close> for every other character outside the printable ASCII range.\<close>

definition esc_char :: "char \<Rightarrow> string" where
  "esc_char c =
     (if c = CHR 0x22 then [CHR 0x5C, CHR 0x22]
      else if c = CHR 0x5C then [CHR 0x5C, CHR 0x5C]
      else if c = CHR 0x0A then [CHR 0x5C, CHR ''n'']
      else if c = CHR 0x0D then [CHR 0x5C, CHR ''r'']
      else if c = CHR 0x09 then [CHR 0x5C, CHR ''t'']
      else if c = CHR 0x0C then [CHR 0x5C, CHR ''f'']
      else if c = CHR 0x08 then [CHR 0x5C, CHR ''b'']
      else if (of_char c :: nat) < 32 \<or> 126 < (of_char c :: nat)
        then [CHR 0x5C, CHR ''u'', CHR ''0'', CHR ''0'',
              digit_char ((of_char c :: nat) div 16), digit_char ((of_char c :: nat) mod 16)]
      else [c])"

definition quote :: "string \<Rightarrow> string" where
  "quote s = CHR 0x22 # concat (map esc_char s) @ [CHR 0x22]"

fun join :: "string \<Rightarrow> string list \<Rightarrow> string" where
  "join sep [] = []"
| "join sep [x] = x"
| "join sep (x # y # ys) = x @ sep @ join sep (y # ys)"

definition dump_item :: "string \<times> string \<Rightarrow> string" where
  "dump_item kv = quote (fst kv) @ '': '' @ snd kv"

text \<open>With \<open>sort_keys=True\<close> the items of every dictionary are written in the order of
  their keys (code-point order, the order of \<open>string\<close> here).\<close>

fun json_dumps :: "json \<Rightarrow> string" where
  "json_dumps JNull = ''null''"
| "json_dumps (JBool b) = (if b then ''true'' else ''false'')"
| "json_dumps (JInt i) = show_int i"
| "json_dumps (JStr s) = quote s"
| "json_dumps (JList xs) = ''['' @ join '', '' (map json_dumps xs) @ '']''"
| "json_dumps (JObj kvs) =
     ''{'' @ join '', '' (map dump_item (sort_key fst (map (\<lambda>kv. (fst kv, json_dumps (snd kv))) kvs))) @ ''}''"

section \<open>The fingerprint (\<open>ai_summary_manager.py\<close>)\<close>

text \<open>
  \<open>hashlib.md5\<close> is a library function: it is a parameter \<open>md5\<close> of the model, from the
  bytes hashed to the 128-bit digest. \<open>json.dumps\<close> writes ASCII only, so \<open>.encode()\<close>
  leaves the string as it is. \<open>hexdigest\<close> writes the digest as 32 lower-case hexadecimal
  digits, the first byte first.
\<close>

type_synonym md5_fun = "string \<Rightarrow> 128 word"

definition hexdigest :: "128 word \<Rightarrow> string" where
  "hexdigest w = map (\<lambda>i. digit_char (unat (take_bit 4 (drop_bit (4 * (31 - i)) w)))) [0..<32]"

text \<open>The \<open>tech_stack\<close> comprehension of \<open>_hash_content\<close>:
  \<open>[assoc.get('techStack', '') for assoc in ... if assoc.get('type') == 'PROJECT_TECH']\<close>.\<close>

fun tech_stack_of :: "json list \<Rightarrow> json list option" where
  "tech_stack_of [] = Some []"
| "tech_stack_of (assoc # rest) = do {
     ty \<leftarrow> dict_get assoc ''type'' JNull;
     if ty = JStr ''PROJECT_TECH'' then do {
       tech \<leftarrow> dict_get assoc ''techStack'' (JStr '''');
       ts \<leftarrow> tech_stack_of rest;
       Some (tech # ts)
     } else tech_stack_of rest
   }"

definition hash_content :: "md5_fun \<Rightarrow> json \<Rightarrow> string option" where
  "hash_content md5 detailed_info =
     (if \<not> truthy detailed_info then Some ''''
      else do {
        present \<leftarrow> has_key detailed_info ''content'';
        if \<not> present then Some ''''
        else do {
          content \<leftarrow> subscript detailed_info ''content'';
          details1 \<leftarrow> dict_get content ''projectDetails'' (JObj []);
          problem_statement \<leftarrow> dict_get details1 ''problem_statement'' (JStr '''');
          details2 \<leftarrow> dict_get content ''projectDetails'' (JObj []);
          solution \<leftarrow> dict_get details2 ''solution'' (JStr '''');
          details3 \<leftarrow> dict_get content ''projectDetails'' (JObj []);
          features \<leftarrow> dict_get details3 ''features'' (JStr '''');
          team \<leftarrow> dict_get content ''team'' (JList []);
          team_size \<leftarrow> py_len team;
          associations \<leftarrow> dict_get content ''associations'' (JList []);
          assocs \<leftarrow> py_iter associations;
          tech_stack \<leftarrow> tech_stack_of assocs;
          Some (hexdigest (md5 (json_dumps (JObj
            [(''problem_statement'', problem_statement),
             (''solution'', solution),
             (''features'', features),
             (''team_size'', JInt (int team_size)),
             (''tech_stack'', JList tech_stack)]))))
        }
      })"

text \<open>The dictionary \<open>hash_data\<close> of \<open>_generate_project_hash\<close>, before it is serialised.\<close>

definition hash_data :: "md5_fun \<Rightarrow> json \<Rightarrow> json option" where
  "hash_data md5 project = do {
     basic_info \<leftarrow> dict_get project ''basic_info'' (JObj []);
     detailed_info \<leftarrow> dict_get project ''detailed_info'' (JObj []);
     title \<leftarrow> dict_get basic_info ''title'' (JStr '''');
     subtitle \<leftarrow> dict_get basic_info ''subtitle'' (JStr '''');
     status \<leftarrow> dict_get basic_info ''status'' (JStr '''');
     domains \<leftarrow> dict_get basic_info ''domains'' (JList []);
     projectTypes \<leftarrow> dict_get basic_info ''projectTypes'' (JList []);
     year \<leftarrow> dict_get basic_info ''year'' (JStr '''');
     updated_at \<leftarrow> dict_get basic_info ''updatedAt'' (JStr '''');
     content_hash \<leftarrow> hash_content md5 detailed_info;
     Some (JObj
       [(''title'', title),
        (''subtitle'', subtitle),
        (''status'', status),
        (''domains'', domains),
        (''projectTypes'', projectTypes),
        (''year'', year),
        (''updated_at'', updated_at),
        (''content_hash'', JStr content_hash)])
   }"

definition generate_project_hash :: "md5_fun \<Rightarrow> json \<Rightarrow> string option" where
  "generate_project_hash md5 project = do {
     data \<leftarrow> hash_data md5 project;
     Some (hexdigest (md5 (json_dumps data)))
   }"

section \<open>The summary cache (\<open>AISummaryManager\<close>)\<close>

text \<open>
  The manager holds the two in-memory dictionaries and, behind them, the two files
  \<open>project_summaries.json\<close> and \<open>metadata.json\<close>. A metadata entry is whatever JSON the
  file held, or the dictionary \<open>store_summary\<close> builds.

  A file is missing, holds a dictionary that was saved whole, or is damaged. Each of the
  two writes of \<open>_save_summaries\<close> is \<open>open(path, 'w')\<close> followed by \<open>json.dump\<close>, and
  either step can fail; which one does is an input of the model. When \<open>open\<close> fails the file
  is as it was. \<open>open\<close> with mode \<open>'w'\<close> empties the file, so when the dump (or the close after
  it) fails the file is left truncated or partly written: damaged. \<open>log\<close> keeps the messages
  of \<open>_save_summaries\<close>.
\<close>

datatype outcome = Written | OpenFailed | DumpFailed

datatype 'a stored_file = Missing | Saved 'a | Damaged

datatype log_event = SavedInfo | SaveFailedError

record manager =
  summaries :: "string \<rightharpoonup> string"
  metadata :: "string \<rightharpoonup> json"
  summaries_file :: "(string \<rightharpoonup> string) stored_file"
  metadata_file :: "(string \<rightharpoonup> json) stored_file"
  log :: "log_event list"

text \<open>\<open>_save_summaries\<close>: both writes are in one \<open>try\<close>; the first exception ends the block
  (the second write is then not attempted), is logged, and is not raised again.\<close>

definition save_summaries :: "outcome \<times> outcome \<Rightarrow> manager \<Rightarrow> manager" where
  "save_summaries io m =
     (case fst io of
        OpenFailed \<Rightarrow> m\<lparr>log := log m @ [SaveFailedError]\<rparr>
      | DumpFailed \<Rightarrow> m\<lparr>summaries_file := Damaged, log := log m @ [SaveFailedError]\<rparr>
      | Written \<Rightarrow>
          (let m1 = m\<lparr>summaries_file := Saved (summaries m)\<rparr> in
           case snd io of
             OpenFailed \<Rightarrow> m1\<lparr>log := log m1 @ [SaveFailedError]\<rparr>
           | DumpFailed \<Rightarrow> m1\<lparr>metadata_file := Damaged, log := log m1 @ [SaveFailedError]\<rparr>
           | Written \<Rightarrow> m1\<lparr>metadata_file := Saved (metadata m1), log := log m1 @ [SavedInfo]\<rparr>))"

text \<open>\<open>get_summary\<close>: \<open>Some None\<close> is Python's \<open>None\<close> (a miss), \<open>Some (Some s)\<close> the cached
  summary, \<open>None\<close> an exception. The informational log line is left out.\<close>

definition get_summary :: "md5_fun \<Rightarrow> manager \<Rightarrow> string \<Rightarrow> json \<Rightarrow> string option option" where
  "get_summary md5 m project_id project =
     (if project_id \<notin> dom (summaries m) then Some None
      else do {
        current_hash \<leftarrow> generate_project_hash md5 project;
        entry \<leftarrow> Some (case metadata m project_id of Some e \<Rightarrow> e | None \<Rightarrow> JObj []);
        cached_hash \<leftarrow> dict_get entry ''hash'' (JStr '''');
        if JStr current_hash \<noteq> cached_hash then Some None
        else Some (summaries m project_id)
      })"

text \<open>
  \<open>store_summary\<close> changes the manager in steps, and an exception between two steps leaves
  the earlier ones done. So its result is the manager it leaves behind together with how the
  call ended: it returned, or it raised.
\<close>

datatype put_result =
    returned: Returned (after_put: manager)
  | Raised (after_put: manager)

text \<open>
  \<open>store_summary\<close>; \<open>now\<close> is \<open>datetime.now().isoformat()\<close>. The summary is assigned first
  (\<open>self.summaries[project_id] = summary\<close>); the fingerprint and the title are computed
  after that, while the metadata entry is built, and either can raise.
\<close>

definition store_summary ::
  "md5_fun \<Rightarrow> string \<Rightarrow> outcome \<times> outcome \<Rightarrow> manager \<Rightarrow> string \<Rightarrow> json \<Rightarrow> string \<Rightarrow> put_result" where
  "store_summary md5 now io m project_id project summary =
     (let m1 = m\<lparr>summaries := (summaries m)(project_id \<mapsto> summary)\<rparr> in
      case generate_project_hash md5 project of
        None \<Rightarrow> Raised m1
      | Some h \<Rightarrow>
          (case do { basic_info \<leftarrow> dict_get project ''basic_info'' (JObj []);
                     dict_get basic_info ''title'' (JStr ''Unknown'') } of
             None \<Rightarrow> Raised m1
           | Some title \<Rightarrow>
               Returned (save_summaries io (m1\<lparr>metadata := (metadata m1)(project_id \<mapsto>
                 JObj [(''hash'', JStr h), (''created_at'', JStr now), (''title'', title)])\<rparr>))))"

section \<open>Conversation memory (\<open>enhanced_ai_chatbot.py\<close>)\<close>

text \<open>
  \<open>self.conversation_history = deque(maxlen=10)\<close>. Appending to a bounded deque adds the
  item on the right and, when the deque is then longer than \<open>maxlen\<close>, drops one item
  from the left.
\<close>

record exchange =
  user :: string
  ai :: string
  timestamp :: string

definition deque_append :: "nat \<Rightarrow> 'a list \<Rightarrow> 'a \<Rightarrow> 'a list" where
  "deque_append maxlen d x = (let d' = d @ [x] in if maxlen < length d' then tl d' else d')"

definition add_to_conversation_history ::
  "exchange list \<Rightarrow> string \<Rightarrow> string \<Rightarrow> string \<Rightarrow> exchange list" where
  "add_to_conversation_history history user_input ai_response now =
     deque_append 10 history \<lparr>user = user_input, ai = ai_response, timestamp = now\<rparr>"

text \<open>A run of calls, each with its user text, response and clock reading.\<close>

definition conversation_after :: "(string \<times> string \<times> string) list \<Rightarrow> exchange list" where
  "conversation_after calls =
     foldl (\<lambda>h c. add_to_conversation_history h (fst c) (fst (snd c)) (snd (snd c))) [] calls"

section \<open>Strings: \<open>lower\<close>, \<open>split\<close>, \<open>strip\<close>\<close>

text \<open>\<open>str.lower()\<close> on the code points below 256: the ASCII capitals and the Latin-1
  capitals (all of 0xC0..0xDE but the multiplication sign) move up by 32.\<close>

definition lower_char :: "char \<Rightarrow> char" where
  "lower_char c =
     (let n = (of_char c :: nat) in
      if (65 \<le> n \<and> n \<le> 90) \<or> (192 \<le> n \<and> n \<le> 222 \<and> n \<noteq> 215)
      then char_of (n + 32) else c)"

definition lower :: "string \<Rightarrow> string" where
  "lower s = map lower_char s"

text \<open>Whitespace for \<open>str.split()\<close> and \<open>str.strip()\<close>, below 256.\<close>

definition is_space :: "char \<Rightarrow> bool" where
  "is_space c = ((of_char c :: nat) \<in> {9, 10, 11, 12, 13, 28, 29, 30, 31, 32, 133, 160})"

fun split_aux :: "string \<Rightarrow> string \<Rightarrow> string list" where
  "split_aux cur [] = (if cur = [] then [] else [cur])"
| "split_aux cur (c # cs) =
     (if is_space c then (if cur = [] then split_aux [] cs else cur # split_aux [] cs)
      else split_aux (cur @ [c]) cs)"

definition split :: "string \<Rightarrow> string list" where
  "split s = split_aux [] s"

definition strip :: "string \<Rightarrow> string" where
  "strip s = rev (dropWhile is_space (rev (dropWhile is_space s)))"

text \<open>\<open>str(v)\<close> as an f-string writes it, for the scalar values. Lists and dictionaries
  (whose \<open>repr\<close> is not modelled) are outside the modelled domain.\<close>

fun py_str :: "json \<Rightarrow> string option" where
  "py_str (JStr s) = Some s"
| "py_str (JInt i) = Some (show_int i)"
| "py_str (JBool b) = Some (if b then ''True'' else ''False'')"
| "py_str JNull = Some ''None''"
| "py_str _ = None"

text \<open>\<open>', '.join(v)\<close>: \<open>v\<close> is iterated and every item must be a string.\<close>

definition join_json :: "json \<Rightarrow> string option" where
  "join_json v = do { items \<leftarrow> py_iter v; strs \<leftarrow> mapM as_str items; Some (join '', '' strs) }"

section \<open>Relevance scoring (\<open>_get_context_for_query\<close>, first loop)\<close>

text \<open>What the loop body reads from one project, lower-cased as the code does.\<close>

record fields =
  f_id :: string
  f_title :: string
  f_subtitle :: string
  f_domains :: "string list"
  f_project_types :: "string list"
  f_problem :: string
  f_solution :: string
  f_features :: string

text \<open>\<open>v.get(k, '').lower()\<close>\<close>

definition get_lower :: "json \<Rightarrow> string \<Rightarrow> string option" where
  "get_lower d k = do { v \<leftarrow> dict_get d k (JStr []); s \<leftarrow> as_str v; Some (lower s) }"

text \<open>\<open>[d.lower() for d in v.get(k, [])]\<close>\<close>

definition get_lower_list :: "json \<Rightarrow> string \<Rightarrow> string list option" where
  "get_lower_list d k = do {
     v \<leftarrow> dict_get d k (JList []);
     items \<leftarrow> py_iter v;
     strs \<leftarrow> mapM as_str items;
     Some (map lower strs)
   }"

text \<open>The project id is \<open>basic_info.get('id', f'project_{i}')\<close>. It is used as a dictionary
  key; identifiers that are not strings are outside the modelled domain.\<close>

definition project_id_of :: "json \<Rightarrow> string \<Rightarrow> string option" where
  "project_id_of basic_info dflt = do { v \<leftarrow> dict_get basic_info ''id'' (JStr dflt); as_str v }"

definition read_fields :: "nat \<Rightarrow> json \<Rightarrow> fields option" where
  "read_fields i project = do {
     basic_info \<leftarrow> subscript project ''basic_info'';
     project_id \<leftarrow> project_id_of basic_info (''project_'' @ show_nat i);
     title \<leftarrow> get_lower basic_info ''title'';
     subtitle \<leftarrow> get_lower basic_info ''subtitle'';
     domains \<leftarrow> get_lower_list basic_info ''domains'';
     project_types \<leftarrow> get_lower_list basic_info ''projectTypes'';
     detailed_info \<leftarrow> dict_get project ''detailed_info'' (JObj []);
     content \<leftarrow> dict_get detailed_info ''content'' (JObj []);
     project_details \<leftarrow> dict_get content ''projectDetails'' (JObj []);
     problem \<leftarrow> get_lower project_details ''problem_statement'';
     solution \<leftarrow> get_lower project_details ''solution'';
     features \<leftarrow> get_lower project_details ''features'';
     Some \<lparr>f_id = project_id, f_title = title, f_subtitle = subtitle, f_domains = domains,
           f_project_types = project_types, f_problem = problem, f_solution = solution,
           f_features = features\<rparr>
   }"

text \<open>One pass of \<open>for word in query_words\<close>.\<close>

definition word_score :: "fields \<Rightarrow> nat \<Rightarrow> string \<Rightarrow> nat" where
  "word_score f score word =
     score
     + (if contains word (f_title f) then 10 else 0)
     + (if contains word (f_subtitle f) then 8 else 0)
     + (if contains word (f_problem f) then 6 else 0)
     + (if contains word (f_solution f) then 6 else 0)
     + (if contains word (f_features f) then 4 else 0)
     + (if list_ex (contains word) (f_domains f) then 7 else 0)
     + (if list_ex (contains word) (f_project_types f) then 7 else 0)"

text \<open>One of the three "domain-specific searches": the query triggers, the canonical
  domain names, the keywords looked for in the problem statement.\<close>

definition topic_boost ::
  "string \<Rightarrow> fields \<Rightarrow> string list \<Rightarrow> string list \<Rightarrow> string list \<Rightarrow> nat" where
  "topic_boost query_lower f triggers canon keywords =
     (if list_ex (\<lambda>t. contains t query_lower) triggers then
        (if list_ex (\<lambda>domain. List.member canon domain) (f_domains f) then 15 else 0)
        + (if list_ex (\<lambda>k. contains k (f_problem f)) keywords then 10 else 0)
      else 0)"

definition relevance :: "string \<Rightarrow> string list \<Rightarrow> fields \<Rightarrow> nat" where
  "relevance query_lower query_words f =
     foldl (word_score f) 0 query_words
     + topic_boost query_lower f [''health'', ''medical'']
         [''healthcare'', ''medical'', ''health''] [''health'', ''medical'']
     + topic_boost query_lower f [''education'', ''edtech'']
         [''education'', ''edtech'', ''learning''] [''education'', ''learning'']
     + topic_boost query_lower f [''ai'', ''artificial intelligence'']
         [''ai'', ''artificial intelligence'', ''machine learning''] [''ai'', ''intelligence'']"

text \<open>The score of one record for a query, as the loop body computes it.\<close>

definition score_project :: "string \<Rightarrow> nat \<Rightarrow> json \<Rightarrow> nat option" where
  "score_project query i project = do {
     f \<leftarrow> read_fields i project;
     Some (relevance (lower query) (split (lower query)) f)
   }"

text \<open>The loop over \<open>enumerate(self.project_data)\<close>. \<open>project_scores\<close> is a dictionary from
  the project id to \<open>(score, project)\<close>: assigning to a key that is already there replaces
  the value and keeps the key's place.\<close>

type_synonym scores = "(string \<times> nat \<times> json) list"

fun score_loop :: "string \<Rightarrow> string list \<Rightarrow> nat \<Rightarrow> json list \<Rightarrow> scores \<Rightarrow> scores option" where
  "score_loop query_lower query_words i [] project_scores = Some project_scores"
| "score_loop query_lower query_words i (project # rest) project_scores = do {
     present \<leftarrow> has_key project ''basic_info'';
     if \<not> present then score_loop query_lower query_words (Suc i) rest project_scores
     else do {
       f \<leftarrow> read_fields i project;
       score \<leftarrow> Some (relevance query_lower query_words f);
       score_loop query_lower query_words (Suc i) rest
         (if 0 < score then AList.update (f_id f) (score, project) project_scores
          else project_scores)
     }
   }"

text \<open>\<open>sorted(project_scores.items(), key=lambda x: x[1][0], reverse=True)\<close>: Python's sort
  is stable, and with \<open>reverse=True\<close> items of equal key still keep their order.\<close>

definition sorted_projects :: "scores \<Rightarrow> scores" where
  "sorted_projects project_scores = sort_key (\<lambda>x. - int (fst (snd x))) project_scores"

text \<open>The ranking: the scored entries of the ten best records, best first.\<close>

definition rank :: "string \<Rightarrow> json list \<Rightarrow> scores option" where
  "rank query project_data = do {
     project_scores \<leftarrow> score_loop (lower query) (split (lower query)) 0 project_data [];
     Some (take 10 (sorted_projects project_scores))
   }"

section \<open>Summary synthesis (\<open>_create_project_summary\<close>)\<close>

text \<open>
  The generation model is an external collaborator: \<open>generate_content\<close> is a parameter of
  the model, from the values interpolated into the prompt to the text of the response,
  \<open>None\<close> when the call raises. The fixed wording of the prompt is left out.
\<close>

record prompt =
  p_title :: string
  p_subtitle :: string
  p_status :: string
  p_year :: string
  p_domains :: string
  p_project_types :: string
  p_problem_statement :: string
  p_solution :: string
  p_features :: string
  p_team_size :: nat
  p_tech_stack :: string

type_synonym generator = "prompt \<Rightarrow> string option"

text \<open>The tech-stack loop shared by \<open>_create_project_summary\<close> and the context build: the
  \<open>techStack\<close> of every \<open>PROJECT_TECH\<close> association, empty values skipped.\<close>

fun tech_stack_loop :: "json list \<Rightarrow> json list option" where
  "tech_stack_loop [] = Some []"
| "tech_stack_loop (assoc # rest) = do {
     ty \<leftarrow> dict_get assoc ''type'' JNull;
     if ty = JStr ''PROJECT_TECH'' then do {
       tech \<leftarrow> dict_get assoc ''techStack'' (JStr []);
       ts \<leftarrow> tech_stack_loop rest;
       Some (if truthy tech then tech # ts else ts)
     } else tech_stack_loop rest
   }"

text \<open>\<open>if 'associations' in content: for assoc in content['associations']: ...\<close>\<close>

definition tech_stack_in :: "json \<Rightarrow> json list option" where
  "tech_stack_in content = do {
     present \<leftarrow> has_key content ''associations'';
     if present then do {
       associations \<leftarrow> subscript content ''associations'';
       assocs \<leftarrow> py_iter associations;
       tech_stack_loop assocs
     } else Some []
   }"

text \<open>The block under \<open>if detailed_info and 'content' in detailed_info\<close>: problem
  statement, solution, features, team size, tech stack.\<close>

definition detailed_parts :: "json \<Rightarrow> (json \<times> json \<times> json \<times> nat \<times> json list) option" where
  "detailed_parts detailed_info =
     (if \<not> truthy detailed_info then Some (JStr [], JStr [], JStr [], 0, [])
      else do {
        present \<leftarrow> has_key detailed_info ''content'';
        if \<not> present then Some (JStr [], JStr [], JStr [], 0, [])
        else do {
          content \<leftarrow> subscript detailed_info ''content'';
          has_details \<leftarrow> has_key content ''projectDetails'';
          texts \<leftarrow> (if has_details then do {
              details \<leftarrow> subscript content ''projectDetails'';
              problem_statement \<leftarrow> dict_get details ''problem_statement'' (JStr []);
              solution \<leftarrow> dict_get details ''solution'' (JStr []);
              features \<leftarrow> dict_get details ''features'' (JStr []);
              Some (problem_statement, solution, features)
            } else Some (JStr [], JStr [], JStr []));
          has_team \<leftarrow> has_key content ''team'';
          team_size \<leftarrow> (if has_team then do { team \<leftarrow> subscript content ''team''; py_len team }
                        else Some 0);
          tech_stack \<leftarrow> tech_stack_in content;
          Some (fst texts, fst (snd texts), snd (snd texts), team_size, tech_stack)
        }
      })"

definition create_project_summary :: "generator \<Rightarrow> json \<Rightarrow> string option" where
  "create_project_summary generate_content project = do {
     basic_info \<leftarrow> dict_get project ''basic_info'' (JObj []);
     detailed_info \<leftarrow> dict_get project ''detailed_info'' (JObj []);
     title \<leftarrow> dict_get basic_info ''title'' (JStr ''Unknown'');
     subtitle \<leftarrow> dict_get basic_info ''subtitle'' (JStr []);
     status \<leftarrow> dict_get basic_info ''status'' (JStr ''Unknown'');
     domains \<leftarrow> dict_get basic_info ''domains'' (JList []);
     project_types \<leftarrow> dict_get basic_info ''projectTypes'' (JList []);
     year \<leftarrow> dict_get basic_info ''year'' (JStr ''Unknown'');
     parts \<leftarrow> detailed_parts detailed_info;
     title_s \<leftarrow> py_str title;
     subtitle_s \<leftarrow> py_str subtitle;
     status_s \<leftarrow> py_str status;
     year_s \<leftarrow> py_str year;
     domains_s \<leftarrow> join_json domains;
     project_types_s \<leftarrow> join_json project_types;
     problem_s \<leftarrow> py_str (fst parts);
     solution_s \<leftarrow> py_str (fst (snd parts));
     features_s \<leftarrow> py_str (fst (snd (snd parts)));
     tech_stack_s \<leftarrow> join_json (JList (snd (snd (snd (snd parts)))));
     Some (case generate_content
         \<lparr>p_title = title_s, p_subtitle = subtitle_s, p_status = status_s, p_year = year_s,
          p_domains = domains_s, p_project_types = project_types_s,
          p_problem_statement = problem_s, p_solution = solution_s, p_features = features_s,
          p_team_size = fst (snd (snd (snd parts))), p_tech_stack = tech_stack_s\<rparr> of
         Some text \<Rightarrow> strip text
       | None \<Rightarrow> title_s @ '': '' @ subtitle_s @ '' - A '' @ project_types_s
                  @ '' project in '' @ domains_s @ '' domains.'')
   }"

section \<open>The context build (\<open>_get_context_for_query\<close>, second loop)\<close>

text \<open>What is interpolated into the block of one project; the labels are left out.\<close>

record rendered =
  r_project_id :: string
  r_title :: string
  r_status :: string
  r_year :: string
  r_domains :: string
  r_project_types :: string
  r_team_size :: nat
  r_tech_stack :: string
  r_problem :: string
  r_solution :: string
  r_features :: string
  r_summary :: string

text \<open>\<open>summary = self.summary_manager.get_summary(project_id, project)\<close>, then
  \<open>if not summary: summary = self._create_project_summary(project)\<close>.\<close>

definition summary_for :: "md5_fun \<Rightarrow> generator \<Rightarrow> manager \<Rightarrow> string \<Rightarrow> json \<Rightarrow> string option" where
  "summary_for md5 generate_content m project_id project = do {
     summary \<leftarrow> get_summary md5 m project_id project;
     case summary of
       Some s \<Rightarrow> if s \<noteq> [] then Some s else create_project_summary generate_content project
     | None \<Rightarrow> create_project_summary generate_content project
   }"

text \<open>\<open>project_details.get(k, 'Not specified')[:150]\<close>\<close>

definition excerpt :: "json \<Rightarrow> string \<Rightarrow> string option" where
  "excerpt project_details k = do {
     v \<leftarrow> dict_get project_details k (JStr ''Not specified'');
     s \<leftarrow> as_str v;
     Some (take 150 s)
   }"

definition render_project ::
  "md5_fun \<Rightarrow> generator \<Rightarrow> manager \<Rightarrow> nat \<Rightarrow> json \<Rightarrow> rendered option" where
  "render_project md5 generate_content m i project = do {
     basic_info \<leftarrow> subscript project ''basic_info'';
     project_id \<leftarrow> project_id_of basic_info (''project_'' @ show_nat i);
     summary \<leftarrow> summary_for md5 generate_content m project_id project;
     detailed_info \<leftarrow> dict_get project ''detailed_info'' (JObj []);
     content \<leftarrow> dict_get detailed_info ''content'' (JObj []);
     project_details \<leftarrow> dict_get content ''projectDetails'' (JObj []);
     has_team \<leftarrow> has_key content ''team'';
     team_size \<leftarrow> (if has_team then do { team \<leftarrow> dict_get content ''team'' (JList []); py_len team }
                   else Some 0);
     tech_stack \<leftarrow> tech_stack_in content;
     title \<leftarrow> dict_get basic_info ''title'' (JStr ''Unknown'');
     title_s \<leftarrow> py_str title;
     status \<leftarrow> dict_get basic_info ''status'' (JStr ''Unknown'');
     status_s \<leftarrow> py_str status;
     year \<leftarrow> dict_get basic_info ''year'' (JStr ''Unknown'');
     year_s \<leftarrow> py_str year;
     domains \<leftarrow> dict_get basic_info ''domains'' (JList []);
     domains_s \<leftarrow> join_json domains;
     project_types \<leftarrow> dict_get basic_info ''projectTypes'' (JList []);
     project_types_s \<leftarrow> join_json project_types;
     tech_stack_s \<leftarrow> (if tech_stack \<noteq> [] then join_json (JList tech_stack)
                      else Some ''Not specified'');
     problem \<leftarrow> excerpt project_details ''problem_statement'';
     solution \<leftarrow> excerpt project_details ''solution'';
     features \<leftarrow> excerpt project_details ''features'';
     Some \<lparr>r_project_id = project_id, r_title = title_s, r_status = status_s, r_year = year_s,
           r_domains = domains_s, r_project_types = project_types_s, r_team_size = team_size,
           r_tech_stack = tech_stack_s, r_problem = problem, r_solution = solution,
           r_features = features, r_summary = summary\<rparr>
   }"

text \<open>The loop over \<open>enumerate(relevant_projects)\<close>. The manager goes through it and comes
  back: the loop body calls \<open>get_summary\<close> and \<open>_create_project_summary\<close> and nothing else
  of the manager.\<close>

fun build_entries ::
  "md5_fun \<Rightarrow> generator \<Rightarrow> manager \<Rightarrow> nat \<Rightarrow> json list \<Rightarrow> (rendered list \<times> manager) option" where
  "build_entries md5 generate_content m i [] = Some ([], m)"
| "build_entries md5 generate_content m i (project # rest) = do {
     entry \<leftarrow> render_project md5 generate_content m i project;
     (entries, m') \<leftarrow> build_entries md5 generate_content m (Suc i) rest;
     Some (entry # entries, m')
   }"

section \<open>The fallback (\<open>_get_comprehensive_overview\<close>)\<close>

record overview =
  o_total_projects :: nat
  o_query :: string
  o_related_count :: nat
  o_domain_distribution :: "(string \<times> nat) list"
  o_related_found :: bool
  o_listing :: "(nat \<times> string \<times> string \<times> string) list"

text \<open>\<open>domain_stats[domain] = domain_stats.get(domain, 0) + 1\<close>; domain tags that are not
  strings are outside the modelled domain.\<close>

definition count_domain :: "(string \<times> nat) list \<Rightarrow> string \<Rightarrow> (string \<times> nat) list" where
  "count_domain domain_stats domain =
     AList.update domain ((case map_of domain_stats domain of Some c \<Rightarrow> c | None \<Rightarrow> 0) + 1)
       domain_stats"

fun overview_loop ::
  "string list \<Rightarrow> json list \<Rightarrow> json list \<Rightarrow> (string \<times> nat) list
     \<Rightarrow> (json list \<times> (string \<times> nat) list) option" where
  "overview_loop query_words [] related_projects domain_stats =
     Some (related_projects, domain_stats)"
| "overview_loop query_words (project # rest) related_projects domain_stats = do {
     present \<leftarrow> has_key project ''basic_info'';
     if \<not> present then overview_loop query_words rest related_projects domain_stats
     else do {
       basic_info \<leftarrow> subscript project ''basic_info'';
       domains \<leftarrow> dict_get basic_info ''domains'' (JList []);
       items \<leftarrow> py_iter domains;
       names \<leftarrow> mapM as_str items;
       detailed_info \<leftarrow> dict_get project ''detailed_info'' (JObj []);
       content \<leftarrow> dict_get detailed_info ''content'' (JObj []);
       project_details \<leftarrow> dict_get content ''projectDetails'' (JObj []);
       problem \<leftarrow> get_lower project_details ''problem_statement'';
       solution \<leftarrow> get_lower project_details ''solution'';
       overview_loop query_words rest
         (if list_ex (\<lambda>word. contains word problem \<or> contains word solution) query_words
          then related_projects @ [project] else related_projects)
         (foldl count_domain domain_stats names)
     }
   }"

text \<open>One line of the list of projects: its number, title, domains and id.\<close>

definition listing_line :: "nat \<Rightarrow> json \<Rightarrow> (nat \<times> string \<times> string \<times> string) option" where
  "listing_line i project = do {
     basic_info \<leftarrow> subscript project ''basic_info'';
     project_id \<leftarrow> dict_get basic_info ''id'' (JStr ''unknown'');
     title \<leftarrow> dict_get basic_info ''title'' (JStr ''Unknown'');
     title_s \<leftarrow> py_str title;
     domains \<leftarrow> dict_get basic_info ''domains'' (JList []);
     domains_s \<leftarrow> join_json domains;
     project_id_s \<leftarrow> py_str project_id;
     Some (i + 1, title_s, domains_s, project_id_s)
   }"

text \<open>\<open>for i, project in enumerate(...)\<close>; with \<open>check\<close> the line is written only
  \<open>if 'basic_info' in project\<close> (the second of the two loops).\<close>

fun listing_loop :: "bool \<Rightarrow> nat \<Rightarrow> json list \<Rightarrow> (nat \<times> string \<times> string \<times> string) list option" where
  "listing_loop check i [] = Some []"
| "listing_loop check i (project # rest) = do {
     present \<leftarrow> (if check then has_key project ''basic_info'' else Some True);
     if present then do {
       line \<leftarrow> listing_line i project;
       lines \<leftarrow> listing_loop check (Suc i) rest;
       Some (line # lines)
     } else listing_loop check (Suc i) rest
   }"

definition get_comprehensive_overview :: "json list \<Rightarrow> string \<Rightarrow> overview option" where
  "get_comprehensive_overview project_data query = do {
     (related_projects, domain_stats) \<leftarrow> overview_loop (split query) project_data [] [];
     listing \<leftarrow> (if related_projects \<noteq> [] then listing_loop False 0 (take 5 related_projects)
                 else listing_loop True 0 (take 5 project_data));
     Some \<lparr>o_total_projects = length project_data, o_query = query,
           o_related_count = length related_projects,
           o_domain_distribution = take 8 (sort_key (\<lambda>x. - int (snd x)) domain_stats),
           o_related_found = (related_projects \<noteq> []),
           o_listing = listing\<rparr>
   }"

section \<open>\<open>_get_context_for_query\<close>\<close>

datatype query_context =
    Found nat string "rendered list"
  | Overview overview

definition get_context_for_query ::
  "md5_fun \<Rightarrow> generator \<Rightarrow> manager \<Rightarrow> json list \<Rightarrow> string \<Rightarrow> (query_context \<times> manager) option" where
  "get_context_for_query md5 generate_content m project_data query = do {
     ranked \<leftarrow> rank query project_data;
     relevant_projects \<leftarrow> Some (map (\<lambda>x. snd (snd x)) ranked);
     if relevant_projects = [] then do {
       ov \<leftarrow> get_comprehensive_overview project_data (lower query);
       Some (Overview ov, m)
     } else do {
       (entries, m') \<leftarrow> build_entries md5 generate_content m 0 relevant_projects;
       Some (Found (length relevant_projects) query entries, m')
     }
   }"

section \<open>Example inputs\<close>

text \<open>A stand-in for \<open>md5\<close> that can be evaluated, and the record of Scenario A.\<close>

definition example_md5 :: md5_fun where
  "example_md5 s = of_nat (length s)"

definition example_project :: json where
  "example_project = JObj [(''basic_info'', JObj [(''id'', JStr ''p1''),
      (''title'', JStr ''Smart Health Monitor''), (''domains'', JList [JStr ''Healthcare''])])]"

definition example_project_v2 :: json where
  "example_project_v2 = JObj [(''basic_info'', JObj [(''id'', JStr ''p1''),
      (''title'', JStr ''Smart Health Monitor 2''), (''domains'', JList [JStr ''Healthcare''])])]"

text \<open>A record as the API can deliver it: the team is \<open>null\<close>.\<close>

definition example_project_null_team :: json where
  "example_project_null_team = JObj [(''basic_info'', JObj [(''id'', JStr ''p1''),
      (''title'', JStr ''Smart Health Monitor''), (''domains'', JList [JStr ''Healthcare''])]),
    (''detailed_info'', JObj [(''content'', JObj [(''team'', JNull)])])]"

definition empty_manager :: manager where
  "empty_manager = \<lparr>summaries = Map.empty, metadata = Map.empty, summaries_file = Missing,
     metadata_file = Missing, log = []\<rparr>"

text \<open>A generator that answers every prompt, with blanks around the text.\<close>

definition example_generator :: generator where
  "example_generator p = Some (''  Summary of '' @ p_title p @ '' '')"



text \<open>
  The scored records as the ranking claim speaks of them: the records of the input list that
  have a \<open>basic_info\<close> and a positive score, in the order of the input list, each with its
  id and its score. (It is what the scoring loop collects when no two of them share an id;
  that is proved below, not assumed.)
\<close>

fun positive_scores_in_input_order ::
  "string \<Rightarrow> string list \<Rightarrow> nat \<Rightarrow> json list \<Rightarrow> scores option" where
  "positive_scores_in_input_order query_lower query_words i [] = Some []"
| "positive_scores_in_input_order query_lower query_words i (project # rest) = do {
     present \<leftarrow> has_key project ''basic_info'';
     if \<not> present then positive_scores_in_input_order query_lower query_words (Suc i) rest
     else do {
       f \<leftarrow> read_fields i project;
       later \<leftarrow> positive_scores_in_input_order query_lower query_words (Suc i) rest;
       Some (if 0 < relevance query_lower query_words f
             then (f_id f, relevance query_lower query_words f, project) # later
             else later)
     }
   }"

text \<open>A second record with the score of the first.\<close>

definition example_project_p3 :: json where
  "example_project_p3 = JObj [(''basic_info'', JObj [(''id'', JStr ''p3''),
      (''title'', JStr ''Health Tracker''), (''domains'', JList [JStr ''Healthcare''])])]"

section \<open>Records up to the order of their keys\<close>

text \<open>
  Two Python dictionaries are equal when they hold the same items, whatever the order the
  items were inserted in. \<open>sort_keys\<close> forgets that order: it sorts the items of every
  dictionary of a value by key, at every depth, and leaves the order of every list as it is.
  Two values with the same \<open>sort_keys\<close> are the same up to the order of keys.
\<close>

fun sort_keys :: "json \<Rightarrow> json" where
  "sort_keys (JObj kvs) = JObj (sort_key fst (map (\<lambda>kv. (fst kv, sort_keys (snd kv))) kvs))"
| "sort_keys (JList xs) = JList (map sort_keys xs)"
| "sort_keys v = v"











section \<open>Properties\<close>

subsection \<open>The summary cache\<close>

lemma hexdigest_length: "length (hexdigest w) = 32"
  by (simp add: hexdigest_def)

lemma generate_project_hash_length:
  "generate_project_hash md5 r = Some h \<Longrightarrow> length h = 32"
  by (auto simp: generate_project_hash_def hexdigest_length split: bind_splits)

lemma example_hash: "generate_project_hash example_md5 example_project = Some ''000000000000000000000000000000a0''"
  by code_simp

lemma example_hash_null_team: "generate_project_hash example_md5 example_project_null_team = None"
  by code_simp

lemma example_hash_v2: "generate_project_hash example_md5 example_project_v2 = Some ''000000000000000000000000000000a2''"
  by code_simp

text \<open>
  C2: storing a summary for an id and a record and then looking the same id and record up
  returns that summary; looking up a record whose fingerprint differs from the fingerprint
  stored with the entry is a miss.
\<close>

theorem cache_put_get:
  "(store_summary md5 now io m pid r s = Returned m' \<longrightarrow> get_summary md5 m' pid r = Some (Some s))
   \<and> (generate_project_hash md5 r' = Some h'
        \<and> dict_get (case metadata m pid of Some e \<Rightarrow> e | None \<Rightarrow> JObj []) ''hash'' (JStr []) = Some stored
        \<and> stored \<noteq> JStr h' \<longrightarrow> get_summary md5 m pid r' = Some None)"
proof (intro conjI impI)
  assume put: "store_summary md5 now io m pid r s = Returned m'"
  then obtain h title where h: "generate_project_hash md5 r = Some h"
      and m': "m' = save_summaries io (m\<lparr>summaries := (summaries m)(pid \<mapsto> s),
                 metadata := (metadata m)(pid \<mapsto>
                   JObj [(''hash'', JStr h), (''created_at'', JStr now), (''title'', title)])\<rparr>)"
    by (auto simp: store_summary_def Let_def split: option.splits)
  have "summaries m' = (summaries m)(pid \<mapsto> s)"
    and "metadata m' = (metadata m)(pid \<mapsto>
           JObj [(''hash'', JStr h), (''created_at'', JStr now), (''title'', title)])"
    by (simp_all add: m' save_summaries_def Let_def split: outcome.splits)
  then show "get_summary md5 m' pid r = Some (Some s)"
    using h by (simp add: get_summary_def)
next
  assume "generate_project_hash md5 r' = Some h'
        \<and> dict_get (case metadata m pid of Some e \<Rightarrow> e | None \<Rightarrow> JObj []) ''hash'' (JStr []) = Some stored
        \<and> stored \<noteq> JStr h'"
  then show "get_summary md5 m pid r' = Some None"
    by (auto simp: get_summary_def)
qed

theorem cache_put_get_witness:
  "returned (store_summary example_md5 ''2024-01-01T00:00:00'' (Written, Written) empty_manager ''p1'' example_project ''S1'')
   \<and> get_summary example_md5
        (after_put (store_summary example_md5 ''2024-01-01T00:00:00'' (Written, Written) empty_manager ''p1'' example_project ''S1''))
        ''p1'' example_project = Some (Some ''S1'')
   \<and> get_summary example_md5
        (after_put (store_summary example_md5 ''2024-01-01T00:00:00'' (Written, Written) empty_manager ''p1'' example_project ''S1''))
        ''p1'' example_project_v2 = Some None"
proof -
  let ?st = "store_summary example_md5 ''2024-01-01T00:00:00'' (Written, Written) empty_manager ''p1'' example_project ''S1''"
  have ret: "returned ?st"
    by (simp add: store_summary_def example_hash Let_def) (simp add: example_project_def)
  then obtain m' where m': "?st = Returned m'" by (cases ?st) auto
  have meta: "dict_get (case metadata m' ''p1'' of Some e \<Rightarrow> e | None \<Rightarrow> JObj []) ''hash'' (JStr [])
                = Some (JStr ''000000000000000000000000000000a0'')"
    using m' by (auto simp: store_summary_def example_hash save_summaries_def Let_def split: option.splits)
  have a: "get_summary example_md5 m' ''p1'' example_project = Some (Some ''S1'')"
    using cache_put_get [of example_md5 "''2024-01-01T00:00:00''" "(Written, Written)" empty_manager "''p1''"
        example_project "''S1''" m'] m' by simp
  have b: "get_summary example_md5 m' ''p1'' example_project_v2 = Some None"
    using cache_put_get [of example_md5 _ _ m' "''p1''" _ _ _ example_project_v2
        "''000000000000000000000000000000a2''" "JStr ''000000000000000000000000000000a0''"]
      example_hash_v2 meta by simp
  show ?thesis using ret a b m' by simp
qed

text \<open>
  C10, as the code has it: when the summaries have an entry for the id and the metadata have
  none, or one without a \<open>hash\<close> field, the stored hash defaults to the empty string and every
  computed fingerprint has 32 characters. So the lookup never returns a summary: it is a miss
  for every record whose fingerprint can be computed, and for a record whose fingerprint
  computation raises, the lookup raises that error.
\<close>

theorem missing_metadata_is_miss:
  assumes "pid \<in> dom (summaries m)"
    and "metadata m pid = None \<or> (\<exists>kvs. metadata m pid = Some (JObj kvs) \<and> ''hash'' \<notin> fst ` set kvs)"
  shows "(generate_project_hash md5 r = Some h \<longrightarrow> length h = 32 \<and> get_summary md5 m pid r = Some None)
         \<and> (generate_project_hash md5 r = None \<longrightarrow> get_summary md5 m pid r = None)
         \<and> get_summary md5 m pid r \<noteq> Some (Some s)"
proof -
  have stored: "dict_get (case metadata m pid of Some e \<Rightarrow> e | None \<Rightarrow> JObj []) ''hash'' (JStr []) = Some (JStr [])"
    using assms(2) by (auto dest: map_of_eq_None_iff [THEN iffD2])
  have ne: "\<And>h. generate_project_hash md5 r = Some h \<Longrightarrow> JStr h \<noteq> JStr []"
    using generate_project_hash_length by fastforce
  show ?thesis
    using assms(1) stored ne generate_project_hash_length [of md5 r h]
    by (auto simp: get_summary_def split: bind_splits)
qed

theorem missing_metadata_is_miss_witness:
  "get_summary example_md5 (empty_manager\<lparr>summaries := [''p1'' \<mapsto> ''S1'']\<rparr>) ''p1'' example_project = Some None
   \<and> get_summary example_md5 (empty_manager\<lparr>summaries := [''p1'' \<mapsto> ''S1'']\<rparr>) ''p1'' example_project_null_team = None"
  using missing_metadata_is_miss [of "''p1''" "empty_manager\<lparr>summaries := [''p1'' \<mapsto> ''S1'']\<rparr>"
      example_md5 example_project "''000000000000000000000000000000a0''"] example_hash
    missing_metadata_is_miss [of "''p1''" "empty_manager\<lparr>summaries := [''p1'' \<mapsto> ''S1'']\<rparr>"
      example_md5 example_project_null_team] example_hash_null_team
  by (simp add: empty_manager_def)

text \<open>
  The claim as the specification states it ("a miss for every record") fails: the summaries
  have an entry for p1, the metadata have none, and for the record whose team is \<open>null\<close> the
  lookup is not a miss: \<open>len(None)\<close> raises inside \<open>_hash_content\<close>, and \<open>get_summary\<close> with it.
\<close>

theorem missing_metadata_raise_counterexample:
  "''p1'' \<in> dom (summaries (empty_manager\<lparr>summaries := [''p1'' \<mapsto> ''S1'']\<rparr>))
   \<and> metadata (empty_manager\<lparr>summaries := [''p1'' \<mapsto> ''S1'']\<rparr>) ''p1'' = None
   \<and> get_summary example_md5 (empty_manager\<lparr>summaries := [''p1'' \<mapsto> ''S1'']\<rparr>) ''p1''
        example_project_null_team \<noteq> Some None
   \<and> get_summary example_md5 (empty_manager\<lparr>summaries := [''p1'' \<mapsto> ''S1'']\<rparr>) ''p1''
        example_project_null_team = None"
  by (simp add: get_summary_def empty_manager_def example_hash_null_team)

text \<open>
  C7: for a record without a \<open>detailed_info\<close> field the content digest inside the
  fingerprint's data is the one \<open>_hash_content\<close> computes for the empty dictionary
  (which is the empty string).
\<close>

theorem absent_detailed_info_digest:
  assumes "''detailed_info'' \<notin> fst ` set kvs" and "hash_data md5 (JObj kvs) = Some data"
  shows "subscript data ''content_hash'' = map_option JStr (hash_content md5 (JObj []))
         \<and> hash_content md5 (JObj []) = Some []"
proof -
  have "map_of kvs ''detailed_info'' = None"
    using assms(1) by (simp add: map_of_eq_None_iff)
  then show ?thesis
    using assms(2) by (auto simp: hash_data_def hash_content_def split: bind_splits)
qed

theorem absent_detailed_info_digest_witness:
  "subscript (the (hash_data example_md5 example_project)) ''content_hash''
     = map_option JStr (hash_content example_md5 (JObj []))
   \<and> hash_data example_md5 example_project \<noteq> None"
proof -
  have some: "hash_data example_md5 example_project \<noteq> None"
    by (simp add: hash_data_def hash_content_def example_project_def)
  then obtain data where hd: "hash_data example_md5 example_project = Some data" by auto
  have "''detailed_info'' \<notin> fst ` set [(''basic_info'', JObj [(''id'', JStr ''p1''),
      (''title'', JStr ''Smart Health Monitor''), (''domains'', JList [JStr ''Healthcare''])])]"
    by simp
  from absent_detailed_info_digest [OF this, of example_md5 data] hd
  show ?thesis by (simp add: example_project_def)
qed

text \<open>
  C4: the record p1 titled "Smart Health Monitor" with the domain "Healthcare" scores
  exactly 32 for the query "health": 10 for the title and 7 for the domain list in the word
  loop, 15 for the health boost.
\<close>

theorem scenario_a_score:
  "score_project ''health'' 0 example_project = Some 32
   \<and> read_fields 0 example_project \<noteq> None
   \<and> foldl (word_score (the (read_fields 0 example_project))) 0 (split (lower ''health'')) = 10 + 7
   \<and> topic_boost (lower ''health'') (the (read_fields 0 example_project)) [''health'', ''medical'']
         [''healthcare'', ''medical'', ''health''] [''health'', ''medical''] = 15
   \<and> rank ''health'' [example_project] = Some [(''p1'', 32, example_project)]"
  by code_simp

subsection \<open>Conversation memory\<close>

lemma deque_append_drop:
  assumes "length d \<le> n"
  shows "deque_append n d x = drop (Suc (length d) - n) (d @ [x])"
proof (cases "n < Suc (length d)")
  case True
  with assms have "Suc (length d) - n = 1" by simp
  then show ?thesis using True by (cases d) (simp_all add: deque_append_def Let_def)
next
  case False
  then show ?thesis by (simp add: deque_append_def Let_def)
qed

lemma history_fold:
  "length h \<le> 10 \<Longrightarrow>
   foldl (\<lambda>h c. add_to_conversation_history h (fst c) (fst (snd c)) (snd (snd c))) h calls
     = drop (length h + length calls - 10)
         (h @ map (\<lambda>c. \<lparr>user = fst c, ai = fst (snd c), timestamp = snd (snd c)\<rparr>) calls)"
proof (induction calls arbitrary: h)
  case Nil
  then show ?case by simp
next
  case (Cons c calls)
  let ?x = "\<lparr>user = fst c, ai = fst (snd c), timestamp = snd (snd c)\<rparr>"
  let ?rest = "map (\<lambda>c. \<lparr>user = fst c, ai = fst (snd c), timestamp = snd (snd c)\<rparr>) calls"
  let ?k = "Suc (length h) - 10"
  let ?h' = "drop ?k (h @ [?x])"
  have step: "add_to_conversation_history h (fst c) (fst (snd c)) (snd (snd c)) = ?h'"
    using Cons.prems by (simp add: add_to_conversation_history_def deque_append_drop)
  have len: "length ?h' \<le> 10"
    using Cons.prems by simp
  have app: "?h' @ ?rest = drop ?k (h @ ?x # ?rest)"
    using Cons.prems by simp
  have "drop (length ?h' + length calls - 10) (?h' @ ?rest)
          = drop (length ?h' + length calls - 10 + ?k) (h @ ?x # ?rest)"
    by (simp only: app drop_drop)
  also have "length ?h' + length calls - 10 + ?k = length h + length (c # calls) - 10"
    using Cons.prems by auto
  finally show ?case
    using Cons.IH [OF len] by (simp add: step)
qed

text \<open>
  C8: after eleven appends to an empty history the history holds the last ten exchanges in
  the order of insertion, and the first exchange is gone.
\<close>

theorem conversation_eviction:
  "length calls = 11 \<Longrightarrow>
     conversation_after calls = tl (map (\<lambda>c. \<lparr>user = fst c, ai = fst (snd c), timestamp = snd (snd c)\<rparr>) calls)
   \<and> length (conversation_after calls) = 10
   \<and> (distinct calls \<longrightarrow> \<lparr>user = fst (hd calls), ai = fst (snd (hd calls)), timestamp = snd (snd (hd calls))\<rparr> \<notin> set (conversation_after calls))"
proof -
  assume n: "length calls = 11"
  let ?mk = "\<lambda>c. \<lparr>user = fst c, ai = fst (snd c), timestamp = snd (snd c)\<rparr>"
  have eq: "conversation_after calls = tl (map ?mk calls)"
    using history_fold [of "[]" calls] n by (simp add: conversation_after_def drop_Suc)
  have inj: "inj ?mk"
    by (rule injI) (auto simp: prod_eq_iff)
  obtain c cs where cs: "calls = c # cs" using n by (cases calls) auto
  have "distinct calls \<longrightarrow> ?mk (hd calls) \<notin> set (tl (map ?mk calls))"
    using inj by (auto simp: cs dest: injD)
  then show ?thesis using eq n by simp
qed

theorem conversation_eviction_witness: "conversation_after [(''q1'', ''a1'', ''t1''), (''q2'', ''a2'', ''t2''), (''q3'', ''a3'', ''t3''), (''q4'', ''a4'', ''t4''), (''q5'', ''a5'', ''t5''), (''q6'', ''a6'', ''t6''), (''q7'', ''a7'', ''t7''), (''q8'', ''a8'', ''t8''), (''q9'', ''a9'', ''t9''), (''q10'', ''a10'', ''t10''), (''q11'', ''a11'', ''t11'')]
  = [\<lparr>user = ''q2'', ai = ''a2'', timestamp = ''t2''\<rparr>, \<lparr>user = ''q3'', ai = ''a3'', timestamp = ''t3''\<rparr>, \<lparr>user = ''q4'', ai = ''a4'', timestamp = ''t4''\<rparr>, \<lparr>user = ''q5'', ai = ''a5'', timestamp = ''t5''\<rparr>, \<lparr>user = ''q6'', ai = ''a6'', timestamp = ''t6''\<rparr>, \<lparr>user = ''q7'', ai = ''a7'', timestamp = ''t7''\<rparr>, \<lparr>user = ''q8'', ai = ''a8'', timestamp = ''t8''\<rparr>, \<lparr>user = ''q9'', ai = ''a9'', timestamp = ''t9''\<rparr>, \<lparr>user = ''q10'', ai = ''a10'', timestamp = ''t10''\<rparr>, \<lparr>user = ''q11'', ai = ''a11'', timestamp = ''t11''\<rparr>]"
  using conversation_eviction [of "[(''q1'', ''a1'', ''t1''), (''q2'', ''a2'', ''t2''), (''q3'', ''a3'', ''t3''), (''q4'', ''a4'', ''t4''), (''q5'', ''a5'', ''t5''), (''q6'', ''a6'', ''t6''), (''q7'', ''a7'', ''t7''), (''q8'', ''a8'', ''t8''), (''q9'', ''a9'', ''t9''), (''q10'', ''a10'', ''t10''), (''q11'', ''a11'', ''t11'')]"] by simp

subsection \<open>Persistence of the cache\<close>

lemma dict_get_is_obj: "dict_get d k dflt = Some v \<Longrightarrow> \<exists>kvs. d = JObj kvs"
  by (cases d) auto

lemma generate_hash_basic_info:
  assumes "generate_project_hash md5 r = Some h"
  shows "\<exists>b. dict_get r ''basic_info'' (JObj []) = Some b
     \<and> (\<exists>t. dict_get b ''title'' (JStr ''Unknown'') = Some t)"
proof -
  from assms obtain b t0 where b: "dict_get r ''basic_info'' (JObj []) = Some b"
      and t0: "dict_get b ''title'' (JStr []) = Some t0"
    by (auto simp: generate_project_hash_def hash_data_def split: bind_splits)
  from dict_get_is_obj [OF t0] obtain kvs where "b = JObj kvs" by blast
  then show ?thesis using b by simp
qed

text \<open>
  C3, as the code has it. A put on a record whose fingerprint can be computed returns
  normally whatever the two writes did: it sets the summary and the metadata entry in the two
  in-memory dictionaries and then tries to write the summaries file and, after it, the
  metadata file. Both files hold the new dictionaries when both writes succeed. A failed
  write is logged and not raised, whether it leaves the file as it was (the \<open>open\<close> failed) or
  damaged (the dump failed); after a failed write of the summaries file the metadata file is
  not touched; after a successful one the summaries file holds the new dictionary whatever
  happens to the metadata file. A put on a record whose fingerprint cannot be computed
  raises, with the summary already set in the in-memory summaries, the metadata untouched and
  no file written.
\<close>

theorem store_summary_persistence:
  "(generate_project_hash md5 r = None \<longrightarrow>
      store_summary md5 now io m pid r s = Raised (m\<lparr>summaries := (summaries m)(pid \<mapsto> s)\<rparr>))
   \<and> (generate_project_hash md5 r = Some h \<longrightarrow>
        (\<exists>m'. store_summary md5 now io m pid r s = Returned m'
           \<and> summaries m' = (summaries m)(pid \<mapsto> s)
           \<and> (\<exists>title. metadata m' = (metadata m)(pid \<mapsto>
                 JObj [(''hash'', JStr h), (''created_at'', JStr now), (''title'', title)]))
           \<and> (io = (Written, Written) \<longrightarrow>
                 summaries_file m' = Saved (summaries m') \<and> metadata_file m' = Saved (metadata m')
                 \<and> log m' = log m @ [SavedInfo])
           \<and> (io \<noteq> (Written, Written) \<longrightarrow> log m' = log m @ [SaveFailedError])
           \<and> (fst io = Written \<longrightarrow> summaries_file m' = Saved (summaries m'))
           \<and> (fst io = OpenFailed \<longrightarrow> summaries_file m' = summaries_file m)
           \<and> (fst io = DumpFailed \<longrightarrow> summaries_file m' = Damaged)
           \<and> (fst io \<noteq> Written \<longrightarrow> metadata_file m' = metadata_file m)
           \<and> (fst io = Written \<and> snd io = OpenFailed \<longrightarrow> metadata_file m' = metadata_file m)
           \<and> (fst io = Written \<and> snd io = DumpFailed \<longrightarrow> metadata_file m' = Damaged)))"
proof (intro conjI impI)
  assume "generate_project_hash md5 r = None"
  then show "store_summary md5 now io m pid r s = Raised (m\<lparr>summaries := (summaries m)(pid \<mapsto> s)\<rparr>)"
    by (simp add: store_summary_def Let_def)
next
  assume h: "generate_project_hash md5 r = Some h"
  obtain b t where b: "dict_get r ''basic_info'' (JObj []) = Some b"
      and t: "dict_get b ''title'' (JStr ''Unknown'') = Some t"
    using generate_hash_basic_info [OF h] by blast
  let ?m2 = "m\<lparr>summaries := (summaries m)(pid \<mapsto> s),
               metadata := (metadata m)(pid \<mapsto>
                 JObj [(''hash'', JStr h), (''created_at'', JStr now), (''title'', t)])\<rparr>"
  have st: "store_summary md5 now io m pid r s = Returned (save_summaries io ?m2)"
    using h b t by (simp add: store_summary_def Let_def)
  obtain o1 o2 where io: "io = (o1, o2)" by (cases io)
  show "\<exists>m'. store_summary md5 now io m pid r s = Returned m'
           \<and> summaries m' = (summaries m)(pid \<mapsto> s)
           \<and> (\<exists>title. metadata m' = (metadata m)(pid \<mapsto>
                 JObj [(''hash'', JStr h), (''created_at'', JStr now), (''title'', title)]))
           \<and> (io = (Written, Written) \<longrightarrow>
                 summaries_file m' = Saved (summaries m') \<and> metadata_file m' = Saved (metadata m')
                 \<and> log m' = log m @ [SavedInfo])
           \<and> (io \<noteq> (Written, Written) \<longrightarrow> log m' = log m @ [SaveFailedError])
           \<and> (fst io = Written \<longrightarrow> summaries_file m' = Saved (summaries m'))
           \<and> (fst io = OpenFailed \<longrightarrow> summaries_file m' = summaries_file m)
           \<and> (fst io = DumpFailed \<longrightarrow> summaries_file m' = Damaged)
           \<and> (fst io \<noteq> Written \<longrightarrow> metadata_file m' = metadata_file m)
           \<and> (fst io = Written \<and> snd io = OpenFailed \<longrightarrow> metadata_file m' = metadata_file m)
           \<and> (fst io = Written \<and> snd io = DumpFailed \<longrightarrow> metadata_file m' = Damaged)"
    using st unfolding io
    by (cases o1; cases o2) (auto simp: save_summaries_def Let_def)
qed

theorem store_summary_persistence_witness:
  "returned (store_summary example_md5 ''2024-01-01T00:00:00'' (Written, Written) empty_manager ''p1'' example_project ''S1'')
   \<and> summaries_file (after_put (store_summary example_md5 ''2024-01-01T00:00:00'' (Written, Written) empty_manager ''p1'' example_project ''S1''))
       = Saved (summaries (after_put (store_summary example_md5 ''2024-01-01T00:00:00'' (Written, Written) empty_manager ''p1'' example_project ''S1'')))
   \<and> metadata_file (after_put (store_summary example_md5 ''2024-01-01T00:00:00'' (Written, Written) empty_manager ''p1'' example_project ''S1''))
       = Saved (metadata (after_put (store_summary example_md5 ''2024-01-01T00:00:00'' (Written, Written) empty_manager ''p1'' example_project ''S1'')))
   \<and> store_summary example_md5 ''2024-01-01T00:00:00'' (Written, Written) empty_manager ''p1'' example_project_null_team ''S1''
       = Raised (empty_manager\<lparr>summaries := (summaries empty_manager)(''p1'' \<mapsto> ''S1'')\<rparr>)"
  using store_summary_persistence [of example_md5 example_project "''2024-01-01T00:00:00''"
      "(Written, Written)" empty_manager "''p1''" "''S1''" "''000000000000000000000000000000a0''"]
    store_summary_persistence [of example_md5 example_project_null_team "''2024-01-01T00:00:00''"
      "(Written, Written)" empty_manager "''p1''" "''S1''"]
    example_hash example_hash_null_team
  by auto

text \<open>
  The claim as the specification states it fails: the summaries file is written, the
  metadata file cannot be opened, and \<open>store_summary\<close> returns normally with the error in
  the log only.
\<close>

theorem partial_write_counterexample:
  "returned (store_summary example_md5 ''2024-01-01T00:00:00'' (Written, OpenFailed) empty_manager ''p1'' example_project ''S1'')
   \<and> summaries_file (after_put (store_summary example_md5 ''2024-01-01T00:00:00'' (Written, OpenFailed) empty_manager ''p1'' example_project ''S1'')) \<noteq> Missing
   \<and> summaries_file (after_put (store_summary example_md5 ''2024-01-01T00:00:00'' (Written, OpenFailed) empty_manager ''p1'' example_project ''S1'')) \<noteq> Damaged
   \<and> metadata_file (after_put (store_summary example_md5 ''2024-01-01T00:00:00'' (Written, OpenFailed) empty_manager ''p1'' example_project ''S1'')) = Missing"
  by (simp add: store_summary_def example_hash Let_def)
     (simp add: example_project_def empty_manager_def save_summaries_def Let_def)

subsection \<open>The context build and the cache\<close>

lemma build_entries_reads_only:
  "build_entries md5 gen m i projects = Some (entries, m') \<Longrightarrow>
     m' = m \<and> length entries = length projects
     \<and> (\<forall>k < length projects.
           render_project md5 gen m (i + k) (projects ! k) = Some (entries ! k))"
proof (induction projects arbitrary: i entries)
  case Nil
  then show ?case by simp
next
  case (Cons p ps)
  from Cons.prems obtain e es where e: "render_project md5 gen m i p = Some e"
      and es: "build_entries md5 gen m (Suc i) ps = Some (es, m')"
      and ent: "entries = e # es"
    by (auto split: bind_splits)
  from Cons.IH [OF es] have ih: "m' = m" "length es = length ps"
      "\<forall>k < length ps. render_project md5 gen m (Suc i + k) (ps ! k) = Some (es ! k)"
    by auto
  have "\<forall>k < length (p # ps). render_project md5 gen m (i + k) ((p # ps) ! k) = Some ((e # es) ! k)"
  proof (intro allI impI)
    fix k assume "k < length (p # ps)"
    then show "render_project md5 gen m (i + k) ((p # ps) ! k) = Some ((e # es) ! k)"
      using e ih(3) by (cases k) auto
  qed
  then show ?case using ih ent by simp
qed

lemma render_project_summary:
  "render_project md5 gen m i project = Some e \<Longrightarrow>
     summary_for md5 gen m (r_project_id e) project = Some (r_summary e)"
  by (auto simp: render_project_def split: bind_splits)

text \<open>
  The context build only reads the cache: the manager comes back as it went in, and the
  summary of every rendered record is the cached one on a hit and a synthesized one otherwise.
\<close>

lemma context_build_leaves_cache:
  assumes "get_context_for_query md5 gen m project_data query = Some (c, m')"
  shows "m' = m
     \<and> (\<forall>n q entries. c = Found n q entries \<longrightarrow>
           (\<exists>ranked. rank query project_data = Some ranked \<and> length entries = length ranked
              \<and> (\<forall>k < length entries.
                    summary_for md5 gen m (r_project_id (entries ! k)) (snd (snd (ranked ! k)))
                      = Some (r_summary (entries ! k)))))"
proof -
  from assms obtain ranked where r: "rank query project_data = Some ranked"
    by (auto simp: get_context_for_query_def split: bind_splits)
  show ?thesis
  proof (cases "map (\<lambda>x. snd (snd x)) ranked = []")
    case True
    then show ?thesis using assms r
      by (auto simp: get_context_for_query_def split: bind_splits)
  next
    case False
    with assms r obtain entries where b: "build_entries md5 gen m 0 (map (\<lambda>x. snd (snd x)) ranked) = Some (entries, m')"
        and c: "c = Found (length ranked) query entries"
      by (auto simp: get_context_for_query_def split: bind_splits if_splits)
    from build_entries_reads_only [OF b]
    have m: "m' = m" and len: "length entries = length ranked"
      and each: "\<forall>k < length ranked. render_project md5 gen m k (snd (snd (ranked ! k))) = Some (entries ! k)"
      by auto
    have "\<forall>k < length entries.
            summary_for md5 gen m (r_project_id (entries ! k)) (snd (snd (ranked ! k)))
              = Some (r_summary (entries ! k))"
      using each len by (auto intro: render_project_summary)
    then show ?thesis using m len r c by simp
  qed
qed

lemma ex_rank: "rank ''health'' [example_project] = Some [(''p1'', 32, example_project)]"
  by code_simp
  
lemma ex_create: "create_project_summary example_generator example_project = Some ''Summary of Smart Health Monitor''"
  by code_simp

lemma ex_get: "get_summary example_md5 empty_manager ''p1'' example_project = Some None"
  by (simp add: get_summary_def empty_manager_def)

lemma ex_summary: "summary_for example_md5 example_generator empty_manager ''p1'' example_project
    = Some ''Summary of Smart Health Monitor''"
  by (simp add: summary_for_def ex_get ex_create)

lemma ex_render: "render_project example_md5 example_generator empty_manager 0 example_project =
  Some \<lparr>r_project_id = ''p1'', r_title = ''Smart Health Monitor'', r_status = ''Unknown'', r_year = ''Unknown'',
        r_domains = ''Healthcare'', r_project_types = [], r_team_size = 0, r_tech_stack = ''Not specified'',
        r_problem = ''Not specified'', r_solution = ''Not specified'', r_features = ''Not specified'',
        r_summary = ''Summary of Smart Health Monitor''\<rparr>"
  by (simp add: render_project_def example_project_def project_id_of_def tech_stack_in_def
        join_json_def excerpt_def ex_summary [unfolded example_project_def])

text \<open>
  C1: on a miss the context build synthesizes a summary and renders it, but does not store
  it. Here the cache is empty, the record p1 is rendered with a synthesized summary, and
  afterwards the lookup of p1 is still a miss.
\<close>

theorem context_build_does_not_store:
  "get_context_for_query example_md5 example_generator empty_manager [example_project] ''health''
     = Some (Found 1 ''health''
         [\<lparr>r_project_id = ''p1'', r_title = ''Smart Health Monitor'', r_status = ''Unknown'', r_year = ''Unknown'',
        r_domains = ''Healthcare'', r_project_types = [], r_team_size = 0, r_tech_stack = ''Not specified'',
        r_problem = ''Not specified'', r_solution = ''Not specified'', r_features = ''Not specified'',
        r_summary = ''Summary of Smart Health Monitor''\<rparr>], empty_manager)
   \<and> get_summary example_md5 empty_manager ''p1'' example_project = Some None
   \<and> summaries empty_manager ''p1'' = None"
  by (simp add: get_context_for_query_def ex_rank ex_render ex_get) (simp add: empty_manager_def)

subsection \<open>The empty query\<close>



























subsection \<open>Ranking order\<close>

lemma update_new_key: "k \<notin> fst ` set al \<Longrightarrow> AList.update k v al = al @ [(k, v)]"
  by (induction al) auto

lemma score_loop_distinct:
  assumes "positive_scores_in_input_order ql qw i pd = Some xs"
    and "distinct (map fst (acc @ xs))"
  shows "score_loop ql qw i pd acc = Some (acc @ xs)"
  using assms
proof (induction pd arbitrary: i acc xs)
  case Nil
  then show ?case by simp
next
  case (Cons p pd)
  from Cons.prems(1) obtain present where pr: "has_key p ''basic_info'' = Some present"
    by (auto split: bind_splits)
  show ?case
  proof (cases present)
    case False
    then show ?thesis using Cons pr by simp
  next
    case True
    with Cons.prems(1) pr obtain f later where f: "read_fields i p = Some f"
        and later: "positive_scores_in_input_order ql qw (Suc i) pd = Some later"
        and xs: "xs = (if 0 < relevance ql qw f then (f_id f, relevance ql qw f, p) # later else later)"
      by (auto split: bind_splits)
    show ?thesis
    proof (cases "0 < relevance ql qw f")
      case False
      then show ?thesis using Cons.IH [OF later, of acc] Cons.prems(2) xs pr True f by simp
    next
      case pos: True
      then have new: "f_id f \<notin> fst ` set acc" using Cons.prems(2) xs by auto
      have d: "distinct (map fst ((acc @ [(f_id f, relevance ql qw f, p)]) @ later))"
        using Cons.prems(2) xs pos by simp
      show ?thesis
        using Cons.IH [OF later d] xs pr True f pos update_new_key [OF new] by simp
    qed
  qed
qed

lemma inputs_subseq:
  "positive_scores_in_input_order ql qw i pd = Some xs \<Longrightarrow> subseq (map (\<lambda>x. snd (snd x)) xs) pd"
proof (induction pd arbitrary: i xs)
  case Nil
  then show ?case by simp
next
  case (Cons p pd)
  from Cons.prems obtain present where pr: "has_key p ''basic_info'' = Some present"
    by (auto split: bind_splits)
  show ?case
  proof (cases present)
    case False
    then show ?thesis using Cons pr by auto
  next
    case True
    with Cons.prems pr obtain f later where
        later: "positive_scores_in_input_order ql qw (Suc i) pd = Some later"
        and xs: "xs = (if 0 < relevance ql qw f then (f_id f, relevance ql qw f, p) # later else later)"
      by (auto split: bind_splits)
    from Cons.IH [OF later] show ?thesis by (auto simp: xs)
  qed
qed

lemma filter_take_prefix: "prefix (filter P (take n xs)) (filter P xs)"
proof -
  have "filter P xs = filter P (take n xs) @ filter P (drop n xs)"
    by (metis append_take_drop_id filter_append)
  then show ?thesis by (simp add: prefix_def)
qed

lemma filter_eq_appendD:
  "filter P xs = ys @ zs \<Longrightarrow> \<exists>us vs. xs = us @ vs \<and> filter P us = ys \<and> filter P vs = zs"
proof (induction ys arbitrary: xs)
  case Nil
  then have "xs = [] @ xs \<and> filter P [] = [] \<and> filter P xs = zs" by simp
  then show ?case by blast
next
  case (Cons y ys)
  then have "filter P xs = y # (ys @ zs)" by simp
  from filter_eq_ConsD [OF this] obtain u v where xs: "xs = u @ y # v"
      and u: "\<forall>x \<in> set u. \<not> P x" and y: "P y" and v: "ys @ zs = filter P v"
    by blast
  from Cons.IH [OF v [symmetric]] obtain us vs where v': "v = us @ vs"
      and us: "filter P us = ys" and vs: "filter P vs = zs"
    by blast
  have "filter P u = []" using u by (simp add: filter_empty_conv)
  then have "xs = (u @ y # us) @ vs \<and> filter P (u @ y # us) = y # ys \<and> filter P vs = zs"
    using xs v' us vs y by simp
  then show ?case by blast
qed

lemma before_in_filter:
  assumes "filter P xs = fu @ a # fv @ b # rest"
  shows "\<exists>us vs ws. xs = us @ a # vs @ b # ws"
proof -
  from filter_eq_appendD [OF assms] obtain u1 v1 where x1: "xs = u1 @ v1"
      and f1: "filter P v1 = a # (fv @ b # rest)"
    by blast
  from f1 obtain u2 v2 where x2: "v1 = u2 @ a # v2" and f2: "filter P v2 = fv @ b # rest"
    by (auto simp: filter_eq_Cons_iff)
  from filter_eq_appendD [OF f2] obtain u3 v3 where x3: "v2 = u3 @ v3" and f3: "filter P v3 = b # rest"
    by blast
  from f3 obtain u4 v4 where x4: "v3 = u4 @ b # v4"
    by (auto simp: filter_eq_Cons_iff)
  have "xs = (u1 @ u2) @ a # (u3 @ u4) @ b # v4"
    by (simp add: x1 x2 x3 x4)
  then show ?thesis by blast
qed

text \<open>
  C5: when the positively scored records have distinct ids, the ranking is the stable sort of
  them by descending score, cut after ten. So, for every score, the ranked records of that
  score are the first ones of the input records of that score, in the input order; and
  whenever one record stands before another of the same score in the ranking, it stands
  before it in the input list.
\<close>

theorem ranking_is_stable:
  assumes "positive_scores_in_input_order (lower query) (split (lower query)) 0 project_data = Some inputs"
    and "distinct (map fst inputs)"
  shows "\<exists>ranked. rank query project_data = Some ranked
     \<and> subseq (map (\<lambda>x. snd (snd x)) inputs) project_data
     \<and> ranked = take 10 (sort_key (\<lambda>x. - int (fst (snd x))) inputs)
     \<and> (\<forall>k. prefix (filter (\<lambda>x. fst (snd x) = k) ranked) (filter (\<lambda>x. fst (snd x) = k) inputs))
     \<and> (\<forall>us a vs b ws. ranked = us @ a # vs @ b # ws \<and> fst (snd a) = fst (snd b)
            \<longrightarrow> (\<exists>us' vs' ws'. inputs = us' @ a # vs' @ b # ws'))"
proof -
  let ?key = "\<lambda>x :: string \<times> nat \<times> json. - int (fst (snd x))"
  let ?ranked = "take 10 (sort_key ?key inputs)"
  have loop: "score_loop (lower query) (split (lower query)) 0 project_data [] = Some inputs"
    using score_loop_distinct [OF assms(1), of "[]"] assms(2) by simp
  then have r: "rank query project_data = Some ?ranked"
    by (simp add: rank_def sorted_projects_def)
  have pre: "prefix (filter (\<lambda>x. fst (snd x) = k) ?ranked) (filter (\<lambda>x. fst (snd x) = k) inputs)" for k
  proof -
    have same: "(\<lambda>x :: string \<times> nat \<times> json. fst (snd x) = k) = (\<lambda>x. ?key x = - int k)"
      by auto
    have "filter (\<lambda>x. fst (snd x) = k) (sort_key ?key inputs) = filter (\<lambda>x. fst (snd x) = k) inputs"
      unfolding same by (rule sort_key_stable)
    then show ?thesis
      using filter_take_prefix [of "\<lambda>x. fst (snd x) = k" 10 "sort_key ?key inputs"] by simp
  qed
  have pair: "\<exists>us' vs' ws'. inputs = us' @ a # vs' @ b # ws'"
    if dec: "?ranked = us @ a # vs @ b # ws" and eq: "fst (snd a) = fst (snd b)" for us a vs b ws
  proof -
    let ?P = "\<lambda>x :: string \<times> nat \<times> json. fst (snd x) = fst (snd a)"
    have "filter ?P ?ranked = filter ?P us @ a # filter ?P vs @ b # filter ?P ws"
      unfolding dec using eq by simp
    with pre [of "fst (snd a)"] obtain rest where
      "filter ?P inputs = filter ?P us @ a # filter ?P vs @ b # (filter ?P ws @ rest)"
      by (auto simp: prefix_def)
    then show ?thesis by (rule before_in_filter)
  qed
  show ?thesis using r pre pair inputs_subseq [OF assms(1)] by blast
qed

lemma ex_inputs: "positive_scores_in_input_order (lower ''health'') (split (lower ''health'')) 0
    [example_project, example_project_p3]
  = Some [(''p1'', 32, example_project), (''p3'', 32, example_project_p3)]"
  by code_simp

theorem ranking_is_stable_witness:
  "rank ''health'' [example_project, example_project_p3]
     = Some [(''p1'', 32, example_project), (''p3'', 32, example_project_p3)]"
proof -
  have d: "distinct (map fst [(''p1'', 32 :: nat, example_project), (''p3'', 32, example_project_p3)])"
    by simp
  from ranking_is_stable [OF ex_inputs d] show ?thesis by simp
qed

subsection \<open>What the fingerprint depends on\<close>

















lemma sort_keys_normal [simp]: "sort_keys JNull = JNull" "sort_keys (JStr s) = JStr s" "sort_keys (JList []) = JList []"
    "sort_keys (JObj []) = JObj []"
  by simp_all






















end
